theory Spec2Isabelle
  imports Complex_Main "HOL-Library.Char_ord" "HOL-Library.List_Lexorder"
begin

section \<open>JavaScript text primitives used by app.js\<close>

text \<open>
  Message texts are modelled as \<open>string\<close>, that is, lists of 8-bit characters. Inbound
  texts are taken to be ASCII; the non-ASCII symbols of the outbound texts are written as
  their UTF-8 bytes. JavaScript numbers are modelled as unbounded integers (\<open>int\<close>), and
  \<open>NaN\<close> as \<open>None\<close>; this is exact below \<open>2 ^ 53\<close>.
\<close>

definition isWhiteSpace :: "char \<Rightarrow> bool" where
  "isWhiteSpace c \<longleftrightarrow> c \<in> set [CHR 0x09, CHR 0x0A, CHR 0x0B, CHR 0x0C, CHR 0x0D, CHR 0x20]"

definition toLowerChar :: "char \<Rightarrow> char" where
  "toLowerChar c =
     (case map_of (zip ''ABCDEFGHIJKLMNOPQRSTUVWXYZ'' ''abcdefghijklmnopqrstuvwxyz'') c of
        None \<Rightarrow> c
      | Some d \<Rightarrow> d)"

definition toLowerCase :: "string \<Rightarrow> string" where
  "toLowerCase s = map toLowerChar s"

definition startsWith :: "string \<Rightarrow> string \<Rightarrow> bool" where
  "startsWith s p \<longleftrightarrow> take (length p) s = p"

definition trim :: "string \<Rightarrow> string" where
  "trim s = rev (dropWhile isWhiteSpace (rev (dropWhile isWhiteSpace s)))"

text \<open>\<open>s.split(/\s+/)\<close>: the pieces between maximal runs of white space.\<close>

function split_ws :: "string \<Rightarrow> string list" where
  "split_ws [] = [[]]"
| "split_ws (c # cs) =
     (if isWhiteSpace c then [] # split_ws (dropWhile isWhiteSpace cs)
      else (case split_ws cs of
              [] \<Rightarrow> [[c]]
            | f # fs \<Rightarrow> (c # f) # fs))"
  by pat_completeness auto
termination
  by (relation "measure length") (auto simp: less_Suc_eq_le length_dropWhile_le)

text \<open>\<open>s.split(",")\<close>: the pieces between the occurrences of one character.\<close>

fun split_char :: "char \<Rightarrow> string \<Rightarrow> string list" where
  "split_char d [] = [[]]"
| "split_char d (c # cs) =
     (if c = d then [] # split_char d cs
      else (case split_char d cs of
              [] \<Rightarrow> [[c]]
            | f # fs \<Rightarrow> (c # f) # fs))"

text \<open>\<open>xs.join(sep)\<close>.\<close>

fun join :: "string \<Rightarrow> string list \<Rightarrow> string" where
  "join sep [] = []"
| "join sep [x] = x"
| "join sep (x # y # ys) = x @ sep @ join sep (y # ys)"

text \<open>\<open>s.padStart(n, "0")\<close>.\<close>

definition padStart :: "nat \<Rightarrow> string \<Rightarrow> string" where
  "padStart n s = replicate (n - length s) (CHR ''0'') @ s"

text \<open>\<open>s.replace("T", " ")\<close> with a string pattern replaces the first occurrence only.\<close>

fun replace_first :: "char \<Rightarrow> char \<Rightarrow> string \<Rightarrow> string" where
  "replace_first a b [] = []"
| "replace_first a b (c # cs) = (if c = a then b # cs else c # replace_first a b cs)"

subsection \<open>Numbers and their decimal form\<close>

definition digit_val :: "char \<Rightarrow> nat option" where
  "digit_val c =
     map_of (zip ''0123456789abcdef'' [0 ..< 16] @ zip ''ABCDEF'' [10 ..< 16]) c"

definition is_digit :: "nat \<Rightarrow> char \<Rightarrow> bool" where
  "is_digit radix c = (case digit_val c of None \<Rightarrow> False | Some d \<Rightarrow> d < radix)"

definition digits_value :: "nat \<Rightarrow> string \<Rightarrow> nat" where
  "digits_value radix ds =
     foldl (\<lambda>a c. a * radix + (case digit_val c of None \<Rightarrow> 0 | Some d \<Rightarrow> d)) 0 ds"

text \<open>
  \<open>parseInt(s)\<close> with no radix: leading white space is skipped, a sign is read, a
  \<open>0x\<close> prefix selects base 16, and the longest run of digits is converted; whatever
  follows the digits is ignored. With no digit at all the result is \<open>NaN\<close>.
\<close>

definition parseInt :: "string \<Rightarrow> int option" where
  "parseInt s =
     (let s1 = dropWhile isWhiteSpace s;
          neg = startsWith s1 ''-'';
          s2 = (if startsWith s1 ''-'' \<or> startsWith s1 ''+'' then drop 1 s1 else s1);
          hex = startsWith s2 ''0x'' \<or> startsWith s2 ''0X'';
          radix = (if hex then 16 else 10);
          s3 = (if hex then drop 2 s2 else s2);
          ds = takeWhile (is_digit radix) s3
      in if ds = [] then None
         else Some ((if neg then - 1 else 1) * int (digits_value radix ds)))"

text \<open>
  \<open>String(x)\<close> and \<open>${x}\<close> for a whole number: the decimal digits, least significant
  first into an accumulator, behind a minus sign when the number is negative.
\<close>

definition digit_char :: "nat \<Rightarrow> char" where
  "digit_char d = ''0123456789'' ! d"

function decimal_acc :: "nat \<Rightarrow> string \<Rightarrow> string" where
  "decimal_acc n acc =
     (if n div 10 = 0 then digit_char (n mod 10) # acc
      else decimal_acc (n div 10) (digit_char (n mod 10) # acc))"
  by pat_completeness auto
termination
  by (relation "measure fst") auto

definition decimal :: "nat \<Rightarrow> string" where
  "decimal n = decimal_acc n []"

definition Number_toString :: "int \<Rightarrow> string" where
  "Number_toString x = (if 0 \<le> x then decimal (nat x) else CHR ''-'' # decimal (nat (- x)))"

section \<open>Configuration (config.js)\<close>

definition DEFAULT_INTERVAL :: int where
  "DEFAULT_INTERVAL = 10"

definition ERROR_SLEEP :: int where
  "ERROR_SLEEP = 600"

definition POLL_TIMEOUT :: int where
  "POLL_TIMEOUT = 30"

section \<open>The environment of the bot\<close>

text \<open>
  The operator and channel identities are left empty in config.js and are filled in by
  whoever deploys the bot; they are fields of the environment. Every call that leaves the
  program (reading the clock, drawing a random number, sending a message, polling,
  looking a BIN up) is answered by the environment as a function of the number of such
  calls made so far, which the state counts in \<open>calls\<close>. The platform's
  \<open>Date.prototype.toISOString\<close> and \<open>JSON.stringify\<close> are fields as well.
\<close>

datatype jsval = Num int | Str string | Arr "string list"

record message =
  from_id :: int
  msg_text :: string

record update =
  update_id :: int
  upd_message :: "message option"

record bin_info =
  brand :: string
  card_type :: string
  level :: string
  bank :: string
  country_name :: string
  country_flag :: string

record world =
  ADMIN_ID :: int
  CHANNEL_ID :: int
  clock :: "nat \<Rightarrow> int"
  random :: "nat \<Rightarrow> rat"
  send_status :: "nat \<Rightarrow> bool"
  poll :: "nat \<Rightarrow> int \<Rightarrow> update list option"
  bin_lookup :: "nat \<Rightarrow> string \<Rightarrow> bin_info option"
  toISOString :: "int \<Rightarrow> string"
  JSON_stringify :: "(string \<times> jsval) list \<Rightarrow> string"

section \<open>The state: globals, files and what the bot has done\<close>

record day_stats =
  sent :: int
  error :: int

record event =
  ev_type :: string
  timestamp :: string
  extra :: "(string \<times> jsval) list"

text \<open>An inline keyboard: rows of buttons, each a caption and a link.\<close>

type_synonym markup = "(string \<times> string) list list"

datatype effect = SendMessage int string "markup option" | Sleep int

text \<open>
  The six globals of app.js, the contents of the three JSON files (a missing file reads as
  empty; reads and writes are taken to succeed), the messages sent and the pauses taken,
  in order, and the number of calls made to the environment. Console output is left out.
\<close>

record state =
  isRunning :: bool
  stopEndTime :: "int option"
  runStartTime :: "int option"
  lastSendTime :: rat
  offset :: int
  interval :: int
  stats_file :: "(string \<times> day_stats) list"
  events_file :: "event list"
  bins_file :: "string list"
  trace :: "effect list"
  calls :: nat

definition initial :: state where
  "initial = \<lparr> isRunning = False, stopEndTime = None, runStartTime = None,
               lastSendTime = 0, offset = 0, interval = DEFAULT_INTERVAL,
               stats_file = [], events_file = [], bins_file = [],
               trace = [], calls = 0 \<rparr>"

subsection \<open>Calls to the environment\<close>

text \<open>\<open>Date.now()\<close> and \<open>new Date()\<close>: milliseconds since the epoch.\<close>

definition Date_now :: "world \<Rightarrow> state \<Rightarrow> int \<times> state" where
  "Date_now w s = (clock w (calls s), s\<lparr>calls := Suc (calls s)\<rparr>)"

text \<open>\<open>Date.now() / 1000\<close>.\<close>

definition seconds :: "int \<Rightarrow> rat" where
  "seconds t = of_int t / 1000"

text \<open>\<open>Math.random()\<close>, a number in [0, 1).\<close>

definition Math_random :: "world \<Rightarrow> state \<Rightarrow> rat \<times> state" where
  "Math_random w s = (frac (random w (calls s)), s\<lparr>calls := Suc (calls s)\<rparr>)"

text \<open>\<open>Math.floor(Math.random() * n)\<close>.\<close>

definition random_below :: "world \<Rightarrow> nat \<Rightarrow> state \<Rightarrow> nat \<times> state" where
  "random_below w n s =
     (let (u, s1) = Math_random w s in (nat \<lfloor>u * of_nat n\<rfloor>, s1))"

definition sleep :: "int \<Rightarrow> state \<Rightarrow> state" where
  "sleep ms s = s\<lparr>trace := trace s @ [Sleep ms]\<rparr>"

definition sendMessage :: "world \<Rightarrow> int \<Rightarrow> string \<Rightarrow> markup option \<Rightarrow> state \<Rightarrow> bool \<times> state" where
  "sendMessage w chatId text replyMarkup s =
     (send_status w (calls s),
      s\<lparr>trace := trace s @ [SendMessage chatId text replyMarkup], calls := Suc (calls s)\<rparr>)"

definition getUpdates :: "world \<Rightarrow> int \<Rightarrow> state \<Rightarrow> update list option \<times> state" where
  "getUpdates w offsetValue s = (poll w (calls s) offsetValue, s\<lparr>calls := Suc (calls s)\<rparr>)"

definition or_unknown :: "string \<Rightarrow> string \<Rightarrow> string" where
  "or_unknown v d = (if v = [] then d else v)"

definition white_flag :: string where
  "white_flag = [CHR 0xF0, CHR 0x9F, CHR 0x8F, CHR 0xB3, CHR 0xEF, CHR 0xB8, CHR 0x8F]"

definition getBinDetails :: "world \<Rightarrow> string \<Rightarrow> state \<Rightarrow> bin_info \<times> state" where
  "getBinDetails w binNumber s =
     (case bin_lookup w (calls s) binNumber of
        Some d \<Rightarrow>
          \<lparr> brand = or_unknown (brand d) ''Unknown'',
            card_type = or_unknown (card_type d) ''Unknown'',
            level = or_unknown (level d) ''Unknown'',
            bank = or_unknown (bank d) ''Unknown'',
            country_name = or_unknown (country_name d) ''Unknown'',
            country_flag = or_unknown (country_flag d) white_flag \<rparr>
      | None \<Rightarrow>
          \<lparr> brand = ''Unknown'', card_type = ''Unknown'', level = ''Unknown'',
            bank = ''Unknown'', country_name = ''Unknown'', country_flag = white_flag \<rparr>,
      s\<lparr>calls := Suc (calls s)\<rparr>)"

subsection \<open>Stats, event log and BIN list\<close>

datatype stat_key = sent_key | error_key

fun bump :: "stat_key \<Rightarrow> int \<Rightarrow> day_stats \<Rightarrow> day_stats" where
  "bump sent_key amount d = d\<lparr>sent := sent d + amount\<rparr>"
| "bump error_key amount d = d\<lparr>error := error d + amount\<rparr>"

text \<open>\<open>stats[today]\<close> is created at zero when absent; a new key goes last.\<close>

fun bump_day :: "string \<Rightarrow> stat_key \<Rightarrow> int \<Rightarrow> (string \<times> day_stats) list \<Rightarrow> (string \<times> day_stats) list" where
  "bump_day today key amount [] = [(today, bump key amount \<lparr>sent = 0, error = 0\<rparr>)]"
| "bump_day today key amount ((d, v) # rest) =
     (if d = today then (d, bump key amount v) # rest
      else (d, v) # bump_day today key amount rest)"

definition incrementStats :: "world \<Rightarrow> stat_key \<Rightarrow> int \<Rightarrow> state \<Rightarrow> state" where
  "incrementStats w key amount s =
     (let (t, s1) = Date_now w s;
          today = take 10 (toISOString w t)
      in s1\<lparr>stats_file := bump_day today key amount (stats_file s1)\<rparr>)"

definition logEvent :: "world \<Rightarrow> string \<Rightarrow> (string \<times> jsval) list \<Rightarrow> state \<Rightarrow> state" where
  "logEvent w eventType extra_fields s =
     (let (t, s1) = Date_now w s;
          entry = \<lparr> ev_type = eventType,
                    timestamp = take 19 (replace_first (CHR ''T'') (CHR '' '') (toISOString w t)),
                    extra = extra_fields \<rparr>
      in s1\<lparr>events_file := events_file s1 @ [entry]\<rparr>)"

definition loadBins :: "state \<Rightarrow> string list" where
  "loadBins s = bins_file s"

definition saveBins :: "string list \<Rightarrow> state \<Rightarrow> state" where
  "saveBins binList s = s\<lparr>bins_file := binList\<rparr>"

section \<open>Card generation\<close>

record card =
  bin :: string
  card_number :: string
  month :: string
  year :: string
  cvv :: string

fun random_digits :: "world \<Rightarrow> nat \<Rightarrow> state \<Rightarrow> string \<times> state" where
  "random_digits w 0 s = ([], s)"
| "random_digits w (Suc n) s =
     (let (d, s1) = random_below w 10 s;
          (ds, s2) = random_digits w n s1
      in (decimal d @ ds, s2))"

definition generateCardData :: "world \<Rightarrow> state \<Rightarrow> card option \<times> state" where
  "generateCardData w s =
     (let binsList = loadBins s in
      if length binsList = 0 then (None, s)
      else
        let (i, s1) = random_below w (length binsList) s;
            chosenBin = take 6 (trim (binsList ! i));
            remainLen = 16 - length chosenBin;
            (tail, s2) = random_digits w remainLen s1;
            cardNumber = chosenBin @ tail;
            (m, s3) = random_below w 16 s2;
            (y, s4) = random_below w (32 - 24 + 1) s3;
            (c, s5) = random_below w (999 - 100 + 1) s4
        in (Some \<lparr> bin = chosenBin, card_number = cardNumber,
                    month = padStart 2 (decimal (m + 1)),
                    year = padStart 2 (decimal (y + 24)),
                    cvv = padStart 3 (decimal (c + 100)) \<rparr>, s5))"

fun draw_bins :: "world \<Rightarrow> nat \<Rightarrow> state \<Rightarrow> string list \<times> state" where
  "draw_bins w 0 s = ([], s)"
| "draw_bins w (Suc n) s =
     (let (u, s1) = Math_random w s;
          (r, s2) = (if u < 1 / 2 then random_below w (499999 - 400000 + 1) s1
                     else random_below w (559999 - 510000 + 1) s1);
          bin6 = (if u < 1 / 2 then r + 400000 else r + 510000);
          (rest, s3) = draw_bins w n s2
      in (decimal bin6 # rest, s3))"

text \<open>The shuffle runs \<open>i\<close> from the last index down to 1 and swaps places \<open>i\<close> and \<open>j\<close>.\<close>

fun shuffle :: "world \<Rightarrow> nat \<Rightarrow> string list \<Rightarrow> state \<Rightarrow> string list \<times> state" where
  "shuffle w 0 result s = (result, s)"
| "shuffle w (Suc i) result s =
     (let (j, s1) = random_below w (Suc i + 1) s
      in shuffle w i (result[Suc i := result ! j, j := result ! Suc i]) s1)"

definition generateRandomBins :: "world \<Rightarrow> int \<Rightarrow> state \<Rightarrow> string list \<times> state" where
  "generateRandomBins w count s =
     (let (result, s1) = draw_bins w (nat count) s
      in shuffle w (length result - 1) result s1)"

section \<open>Operator commands\<close>

definition sym_play :: string where
  "sym_play = [CHR 0xE2, CHR 0x96, CHR 0xB6, CHR 0xEF, CHR 0xB8, CHR 0x8F]"

definition sym_stop :: string where
  "sym_stop = [CHR 0xE2, CHR 0x8F, CHR 0xB9, CHR 0xEF, CHR 0xB8, CHR 0x8F]"

definition sym_hourglass :: string where
  "sym_hourglass = [CHR 0xE2, CHR 0x8F, CHR 0xB3]"

definition sym_stopwatch :: string where
  "sym_stopwatch = [CHR 0xE2, CHR 0x8F, CHR 0xB1]"

definition sym_check :: string where
  "sym_check = [CHR 0xE2, CHR 0x9C, CHR 0x85]"

definition sym_warning :: string where
  "sym_warning = [CHR 0xE2, CHR 0x9A, CHR 0xA0, CHR 0xEF, CHR 0xB8, CHR 0x8F]"

definition sym_chart :: string where
  "sym_chart = [CHR 0xF0, CHR 0x9F, CHR 0x93, CHR 0x8A]"

definition sym_memo :: string where
  "sym_memo = [CHR 0xF0, CHR 0x9F, CHR 0x93, CHR 0x9D]"

definition sym_bullet :: string where
  "sym_bullet = [CHR 0xE2, CHR 0x80, CHR 0xA2]"

definition sym_fire :: string where
  "sym_fire = [CHR 0xF0, CHR 0x9F, CHR 0x94, CHR 0xA5]"

definition sym_rule :: string where
  "sym_rule = concat (replicate 14 [CHR 0xE2, CHR 0x94, CHR 0x81])"

definition Math_floor :: "rat \<Rightarrow> int" where
  "Math_floor x = \<lfloor>x\<rfloor>"

text \<open>Sending to the operator with the result dropped: \<open>await sendMessage(ADMIN_ID, text)\<close>.\<close>

definition tell_admin :: "world \<Rightarrow> string \<Rightarrow> state \<Rightarrow> state" where
  "tell_admin w text s = snd (sendMessage w (ADMIN_ID w) text None s)"

definition cmd_start :: "world \<Rightarrow> state \<Rightarrow> state" where
  "cmd_start w s =
     (let s1 = s\<lparr>isRunning := True, stopEndTime := None\<rparr>;
          (t, s2) = Date_now w s1;
          s3 = s2\<lparr>runStartTime := Some (Math_floor (seconds t))\<rparr>;
          s4 = logEvent w ''start'' [(''mode'', Str ''indefinite'')] s3
      in tell_admin w (sym_play @ '' Bot started sending cards indefinitely.'') s4)"

definition cmd_stop :: "world \<Rightarrow> string option \<Rightarrow> state \<Rightarrow> state" where
  "cmd_stop w arg s =
     (case arg of
        Some a \<Rightarrow>
          (case parseInt a of
             Some stopSecs \<Rightarrow>
               (let s1 = s\<lparr>isRunning := True\<rparr>;
                    (t1, s2) = Date_now w s1;
                    s3 = s2\<lparr>stopEndTime := Some (Math_floor (seconds t1) + stopSecs)\<rparr>;
                    (t2, s4) = Date_now w s3;
                    s5 = s4\<lparr>runStartTime := Some (Math_floor (seconds t2))\<rparr>;
                    s6 = logEvent w ''timed-stop'' [(''stop_in_seconds'', Num stopSecs)] s5
                in tell_admin w (sym_hourglass @ '' Bot will stop automatically in ''
                                  @ Number_toString stopSecs @ '' seconds.'') s6)
           | None \<Rightarrow> tell_admin w ''Usage: /stop <seconds>'' s)
      | None \<Rightarrow>
          (let s1 = s\<lparr>isRunning := False\<rparr>;
               s2 = (case runStartTime s1 of
                       Some r \<Rightarrow>
                         (let (t, s') = Date_now w s1;
                              ranFor = Math_floor (seconds t - of_int r)
                          in logEvent w ''stop'' [(''ran_for_seconds'', Num ranFor)] s')
                     | None \<Rightarrow> logEvent w ''stop'' [] s1);
               s3 = s2\<lparr>runStartTime := None, stopEndTime := None\<rparr>
           in tell_admin w (sym_stop @ '' Bot stopped immediately.'') s3))"

definition cmd_stime :: "world \<Rightarrow> string option \<Rightarrow> state \<Rightarrow> state" where
  "cmd_stime w arg s =
     (case arg of
        Some a \<Rightarrow>
          (case parseInt a of
             Some stimeSecs \<Rightarrow>
               (let s1 = s\<lparr>isRunning := True\<rparr>;
                    (t, s2) = Date_now w s1;
                    s3 = s2\<lparr>runStartTime := Some (Math_floor (seconds t))\<rparr>;
                    s4 = s3\<lparr>stopEndTime := Some (Math_floor (seconds t) + stimeSecs)\<rparr>;
                    s5 = logEvent w ''stime'' [(''duration_seconds'', Num stimeSecs)] s4
                in tell_admin w (sym_hourglass @ '' Bot started for '' @ Number_toString stimeSecs
                                  @ '' seconds. It will stop automatically.'') s5)
           | None \<Rightarrow> tell_admin w ''Usage: /stime <seconds>'' s)
      | None \<Rightarrow> tell_admin w ''Usage: /stime <seconds>'' s)"

definition cmd_time :: "world \<Rightarrow> string option \<Rightarrow> state \<Rightarrow> state" where
  "cmd_time w arg s =
     (case arg of
        Some a \<Rightarrow>
          (case parseInt a of
             Some newInterval \<Rightarrow>
               (let s1 = s\<lparr>interval := newInterval\<rparr>;
                    (t, s2) = Date_now w s1;
                    s3 = s2\<lparr>lastSendTime := seconds t\<rparr>;
                    s4 = tell_admin w (sym_stopwatch @ '' Interval set to ''
                                        @ Number_toString newInterval @ '' second(s) per card.'') s3
                in logEvent w ''interval-change'' [(''new_interval'', Num newInterval)] s4)
           | None \<Rightarrow> tell_admin w ''Usage: /time <seconds>'' s)
      | None \<Rightarrow> tell_admin w ''Usage: /time <seconds>'' s)"

definition cmd_gen :: "world \<Rightarrow> string option \<Rightarrow> state \<Rightarrow> state" where
  "cmd_gen w arg s =
     (case arg of
        Some a \<Rightarrow>
          (case parseInt a of
             Some genCount \<Rightarrow>
               (if genCount > 0 then
                  (let (binsList, s1) = generateRandomBins w genCount s
                   in tell_admin w (join '','' binsList) s1)
                else tell_admin w ''Please specify a positive number for /gen.'' s)
           | None \<Rightarrow> tell_admin w ''Please specify a positive number for /gen.'' s)
      | None \<Rightarrow> tell_admin w ''Usage: /gen <count>'' s)"

text \<open>The loop of \<open>/bin\<close> over the submitted tokens, with the list and the tally it carries.\<close>

fun add_bins :: "string list \<Rightarrow> string list \<Rightarrow> nat \<Rightarrow> string list \<times> nat" where
  "add_bins [] currentBins addedCount = (currentBins, addedCount)"
| "add_bins (b # bs) currentBins addedCount =
     (let b' = trim b in
      if b' \<noteq> [] \<and> b' \<notin> set currentBins
      then add_bins bs (currentBins @ [b']) (addedCount + 1)
      else add_bins bs currentBins addedCount)"

definition cmd_bin :: "world \<Rightarrow> string option \<Rightarrow> state \<Rightarrow> state" where
  "cmd_bin w arg s =
     (case arg of
        Some a \<Rightarrow>
          (let rawBins = filter (\<lambda>c. \<not> isWhiteSpace c) a;
               newBins = split_char (CHR '','') rawBins;
               (currentBins, addedCount) = add_bins newBins (loadBins s) 0;
               s1 = saveBins currentBins s;
               s2 = logEvent w ''add-bin'' [(''added'', Arr newBins)] s1
           in tell_admin w (sym_check @ '' Added '' @ decimal addedCount
                             @ '' new BIN(s). Total in database: ''
                             @ decimal (length currentBins)) s2)
      | None \<Rightarrow> tell_admin w ''Usage: /bin <comma-separated BINs>'' s)"

definition cmd_remove :: "world \<Rightarrow> state \<Rightarrow> state" where
  "cmd_remove w s =
     (let s1 = saveBins [] s;
          s2 = logEvent w ''remove-all'' [] s1
      in tell_admin w ''All BINs have been removed from the database.'' s2)"

definition cmd_r :: "world \<Rightarrow> string option \<Rightarrow> state \<Rightarrow> state" where
  "cmd_r w arg s =
     (case arg of
        Some a \<Rightarrow>
          (let binToRemove = trim a;
               currentBins = loadBins s
           in if binToRemove \<in> set currentBins then
                (let s1 = saveBins (filter (\<lambda>b. b \<noteq> binToRemove) currentBins) s;
                     s2 = logEvent w ''remove-bin'' [(''bin'', Str binToRemove)] s1
                 in tell_admin w (''BIN '' @ binToRemove @ '' removed from the database.'') s2)
              else tell_admin w (''BIN '' @ binToRemove @ '' not found in the database.'') s)
      | None \<Rightarrow> tell_admin w ''Usage: /r <bin>'' s)"

definition cmd_info :: "world \<Rightarrow> state \<Rightarrow> state" where
  "cmd_info w s =
     (let stats = stats_file s in
      if length stats = 0 then tell_admin w ''No stats found yet.'' s
      else
        let allDays = sort_key fst stats;
            recentDays = drop (length allDays - 10) allDays;
            day_lines = map (\<lambda>(day, d). sym_bullet @ '' <b>'' @ day @ ''</b> => Sent: ''
                                @ Number_toString (sent d) @ '', Errors: ''
                                @ Number_toString (error d)) recentDays
        in tell_admin w
             (join [CHR 0x0A] ((sym_chart @ '' <b>Daily Stats (Last 10 Days)</b>'') # day_lines)) s)"

definition cmd_logs :: "world \<Rightarrow> state \<Rightarrow> state" where
  "cmd_logs w s =
     (let events = events_file s in
      if length events = 0 then tell_admin w ''No event logs found.'' s
      else
        let ev_lines = map (\<lambda>(i, ev). ''<b>'' @ decimal (i + 1) @ ''.</b> <b>Type:</b> ''
                               @ or_unknown (ev_type ev) ''unknown'' @ '', <b>Time:</b> ''
                               @ timestamp ev @ '', <b>Data:</b> ''
                               @ JSON_stringify w (extra ev)) (enumerate 0 events)
        in tell_admin w (join [CHR 0x0A] ((sym_memo @ '' <b>Event Logs</b>'') # ev_lines)) s)"

text \<open>\<open>text.trim().split(/\s+/, 2)\<close>: at most the first two pieces are kept.\<close>

definition cmdParts :: "string \<Rightarrow> string list" where
  "cmdParts text = take 2 (split_ws (trim text))"

text \<open>\<open>cmdParts[1]\<close> under the test \<open>cmdParts.length > 1\<close>.\<close>

definition arg_of :: "string list \<Rightarrow> string option" where
  "arg_of parts = (case parts of _ # a # _ \<Rightarrow> Some a | _ \<Rightarrow> None)"

definition admin_command :: "world \<Rightarrow> string \<Rightarrow> state \<Rightarrow> state" where
  "admin_command w text s =
     (case cmdParts text of
        [] \<Rightarrow> s
      | c # rest \<Rightarrow>
          (let command = toLowerCase c;
               arg = arg_of (c # rest)
           in if command = ''/start'' then cmd_start w s
              else if command = ''/stop'' then cmd_stop w arg s
              else if command = ''/stime'' then cmd_stime w arg s
              else if command = ''/time'' then cmd_time w arg s
              else if command = ''/gen'' then cmd_gen w arg s
              else if command = ''/bin'' then cmd_bin w arg s
              else if command = ''/remove'' then cmd_remove w s
              else if command = ''/r'' then cmd_r w arg s
              else if command = ''/info'' then cmd_info w s
              else if command = ''/logs'' then cmd_logs w s
              else s))"

section \<open>The main loop\<close>

text \<open>
  Step 1: auto-stop. A \<open>stopEndTime\<close> of \<open>null\<close> or \<open>0\<close> is falsy, and then the clock is
  not read. In arithmetic \<open>null\<close> counts as \<open>0\<close>.
\<close>

definition auto_stop :: "world \<Rightarrow> state \<Rightarrow> state" where
  "auto_stop w s =
     (case stopEndTime s of
        None \<Rightarrow> s
      | Some e \<Rightarrow>
          if e = 0 then s
          else
            (let (t0, s0) = Date_now w s in
             if seconds t0 \<ge> of_int e then
               (let s1 = s0\<lparr>isRunning := False\<rparr>;
                    (t1, s2) = Date_now w s1;
                    ranSecs = Math_floor (seconds t1
                                - of_int (case runStartTime s2 of None \<Rightarrow> 0 | Some r \<Rightarrow> r));
                    s3 = logEvent w ''auto-stop'' [(''ran_for_seconds'', Num ranSecs)] s2;
                    s4 = tell_admin w (sym_stop @ '' Time is up! The bot is now off.'') s3
                in s4\<lparr>runStartTime := None, stopEndTime := None\<rparr>)
             else s0))"

text \<open>Step 2: the updates of one poll, one by one.\<close>

definition knownCmds :: "string list" where
  "knownCmds = [''/start'', ''/stop'', ''/time'', ''/info'', ''/logs'', ''/bin'', ''/remove'',
                ''/r'', ''/stime'', ''/gen'']"

definition not_authorized :: string where
  "not_authorized = ''You are not authorized to use this bot. Please contact admin @ethicalakash.''"

definition handle_update :: "world \<Rightarrow> update \<Rightarrow> state \<Rightarrow> state" where
  "handle_update w upd s =
     (let s1 = s\<lparr>offset := update_id upd + 1\<rparr> in
      case upd_message upd of
        None \<Rightarrow> s1
      | Some msg \<Rightarrow>
          (let userId = from_id msg;
               text = msg_text msg
           in if startsWith text ''/'' then
                (if userId \<noteq> ADMIN_ID w then
                   (if list_ex (\<lambda>cmd. startsWith (toLowerCase text) cmd) knownCmds
                    then snd (sendMessage w userId not_authorized None s1)
                    else s1)
                 else admin_command w text s1)
              else s1))"

definition poll_updates :: "world \<Rightarrow> state \<Rightarrow> state" where
  "poll_updates w s =
     (let (updates, s1) = getUpdates w (offset s) s in
      case updates of
        None \<Rightarrow> s1
      | Some result \<Rightarrow> foldl (\<lambda>s' upd. handle_update w upd s') s1 result)"

text \<open>Step 3: sending a card.\<close>

definition messageText :: "card \<Rightarrow> bin_info \<Rightarrow> string" where
  "messageText c binInfo =
     sym_fire @ '' AakashScraper v3.1 '' @ sym_fire @ [CHR 0x0A] @
     sym_rule @ [CHR 0x0A] @
     ''<b>Card:</b> <code>'' @ card_number c @ ''|'' @ month c @ ''|'' @ year c @ ''|'' @ cvv c
       @ ''</code>'' @ [CHR 0x0A] @
     ''<b>Status:</b> Approved '' @ sym_check @ [CHR 0x0A] @
     ''<b>BIN:</b> #'' @ bin c @ [CHR 0x0A] @
     sym_rule @ [CHR 0x0A] @
     ''<b>Info:</b> <code>'' @ brand binInfo @ ''-'' @ card_type binInfo @ ''-'' @ level binInfo
       @ ''</code>'' @ [CHR 0x0A] @
     ''<b>Bank:</b> <code>'' @ bank binInfo @ ''</code>'' @ [CHR 0x0A] @
     ''<b>Country:</b> <code>'' @ country_name binInfo @ '' ['' @ country_flag binInfo
       @ '']</code>'' @ [CHR 0x0A] @
     sym_rule @ [CHR 0x0A] @
     ''<b>Extra:</b> <code>'' @ take 12 (card_number c) @ ''xxxx|'' @ month c @ ''|'' @ year c
       @ ''|rnd</code>'' @ [CHR 0x0A] @
     ''<b>Made by:</b> Aakash'' @ [CHR 0x0A] @
     sym_rule"

definition replyMarkup :: markup where
  "replyMarkup = [[(''Join'', ''https://t.me/skylegacyy'')]]"

definition no_bins_notice :: string where
  "no_bins_notice = sym_warning @ '' No BINs in database. Add some with /bin <list>.''"

definition send_error_notice :: string where
  "send_error_notice = sym_warning @ '' Error sending card message. Retrying in 600s...''"

text \<open>
  The body of the emission branch. The flag returned is \<open>True\<close> when the branch ends in
  \<open>continue\<close>, which skips the pause of step 4. The success branch reads the clock a second
  time for its console line.
\<close>

definition send_card :: "world \<Rightarrow> state \<Rightarrow> bool \<times> state" where
  "send_card w s =
     (case generateCardData w s of
        (None, s1) \<Rightarrow> (True, sleep 5000 (tell_admin w no_bins_notice s1))
      | (Some c, s1) \<Rightarrow>
          (let (binInfo, s2) = getBinDetails w (bin c) s1;
               (success, s3) = sendMessage w (CHANNEL_ID w) (messageText c binInfo)
                                 (Some replyMarkup) s2
           in if success then
                (let s4 = incrementStats w sent_key 1 s3;
                     (t, s5) = Date_now w s4;
                     s6 = s5\<lparr>lastSendTime := seconds t\<rparr>
                 in (False, snd (Date_now w s6)))
              else
                (let s4 = incrementStats w error_key 1 s3;
                     s5 = tell_admin w send_error_notice s4;
                     s6 = sleep (ERROR_SLEEP * 1000) s5;
                     (t, s7) = Date_now w s6
                 in (False, s7\<lparr>lastSendTime := seconds t\<rparr>))))"

definition emit_check :: "world \<Rightarrow> state \<Rightarrow> bool \<times> state" where
  "emit_check w s =
     (let (t, s0) = Date_now w s;
          nowSecs = seconds t
      in if isRunning s0 \<and> nowSecs - lastSendTime s0 \<ge> of_int (interval s0)
         then send_card w s0
         else (False, s0))"

text \<open>One pass through the body of \<open>while (true)\<close>.\<close>

definition iteration :: "world \<Rightarrow> state \<Rightarrow> state" where
  "iteration w s =
     (let s1 = auto_stop w s;
          s2 = poll_updates w s1;
          (skip, s3) = emit_check w s2
      in if skip then s3 else sleep 1000 s3)"

text \<open>
  The states the bot can be in: it starts with the globals at their initial values and
  with whatever the three files hold, and moves by the steps of the loop. The parameter
  \<open>P\<close> restricts the updates that arrive.
\<close>

inductive reachable :: "world \<Rightarrow> (update \<Rightarrow> bool) \<Rightarrow> state \<Rightarrow> bool" for w :: world and P :: "update \<Rightarrow> bool" where
  start: "reachable w P (initial\<lparr>stats_file := st, events_file := ev, bins_file := bs\<rparr>)"
| auto: "reachable w P s \<Longrightarrow> reachable w P (auto_stop w s)"
| polled: "reachable w P s \<Longrightarrow> reachable w P (snd (getUpdates w (offset s) s))"
| handled: "reachable w P s \<Longrightarrow> P upd \<Longrightarrow> reachable w P (handle_update w upd s)"
| emitted: "reachable w P s \<Longrightarrow> reachable w P (snd (emit_check w s))"
| slept: "reachable w P s \<Longrightarrow> reachable w P (sleep ms s)"

section \<open>Notions used to state the properties\<close>

text \<open>The RunState of the specification: the five scheduling globals.\<close>

definition run_state :: "state \<Rightarrow> bool \<times> int option \<times> int option \<times> rat \<times> int" where
  "run_state s = (isRunning s, stopEndTime s, runStartTime s, lastSendTime s, interval s)"

text \<open>A timer that is set implies that the bot is running.\<close>

definition RunState_invariant :: "state \<Rightarrow> bool" where
  "RunState_invariant s \<longleftrightarrow>
     (stopEndTime s \<noteq> None \<longrightarrow> isRunning s) \<and> (runStartTime s \<noteq> None \<longrightarrow> isRunning s)"




text \<open>The test of step 3 succeeds in state \<open>s\<close>.\<close>

definition due_to_emit :: "world \<Rightarrow> state \<Rightarrow> bool" where
  "due_to_emit w s \<longleftrightarrow>
     isRunning s \<and> seconds (clock w (calls s)) - lastSendTime s \<ge> of_int (interval s)"

text \<open>An update that carries a command text from a sender.\<close>

definition text_from :: "int \<Rightarrow> string \<Rightarrow> update" where
  "text_from sender text =
     \<lparr> update_id = 1, upd_message = Some \<lparr> from_id = sender, msg_text = text \<rparr> \<rparr>"


subsection \<open>A concrete environment\<close>

text \<open>
  The operator is chat 1 and the channel chat 2. The clock starts at 11.999 s after the
  epoch and advances by one millisecond per call for the first nineteen calls; from then
  on, ten minutes and more later, it advances by one second per call. Every send fails,
  no update arrives and no BIN is known. The dates are rendered as they are during the
  first hour after the epoch.
\<close>

definition demo_iso :: "int \<Rightarrow> string" where
  "demo_iso t =
     ''1970-01-01T00:'' @ padStart 2 (Number_toString (t div 60000)) @ '':''
       @ padStart 2 (Number_toString (t div 1000 mod 60)) @ ''.''
       @ padStart 3 (Number_toString (t mod 1000)) @ ''Z''"

definition demo_world :: world where
  "demo_world =
     \<lparr> ADMIN_ID = 1, CHANNEL_ID = 2,
       clock = (\<lambda>k. if k < 19 then 11999 + int k else 612000 + 1000 * int k),
       random = (\<lambda>k. 0),
       send_status = (\<lambda>k. False),
       poll = (\<lambda>k off. None),
       bin_lookup = (\<lambda>k b. None),
       toISOString = demo_iso,
       JSON_stringify = (\<lambda>fields. ''{}'') \<rparr>"

text \<open>A running bot with one BIN, the default interval and no card sent yet.\<close>

definition demo_running :: state where
  "demo_running = initial\<lparr>isRunning := True, runStartTime := Some 0,
                          bins_file := [''400000'']\<rparr>"


section \<open>Basic facts\<close>

declare decimal_acc.simps [simp del]

lemma floor_seconds: "Math_floor (seconds t) = t div 1000"
  by (simp add: Math_floor_def seconds_def floor_divide_of_int_eq[of t 1000, simplified])

lemma floor_seconds_diff: "Math_floor (seconds t - of_int r) = t div 1000 - r"
  unfolding Math_floor_def seconds_def
  using floor_divide_of_int_eq[of t 1000, where ?'a = rat] by simp

lemma tell_admin_eq:
  "tell_admin w m s =
     s\<lparr>trace := trace s @ [SendMessage (ADMIN_ID w) m None], calls := Suc (calls s)\<rparr>"
  by (simp add: tell_admin_def sendMessage_def)

lemma logEvent_eq:
  "logEvent w ty ex s =
     s\<lparr>calls := Suc (calls s),
       events_file := events_file s @
         [\<lparr> ev_type = ty,
            timestamp = take 19 (replace_first (CHR ''T'') (CHR '' '') (toISOString w (clock w (calls s)))),
            extra = ex \<rparr>]\<rparr>"
  by (simp add: logEvent_def Date_now_def)

lemma incrementStats_eq:
  "incrementStats w key amount s =
     s\<lparr>calls := Suc (calls s),
       stats_file := bump_day (take 10 (toISOString w (clock w (calls s)))) key amount (stats_file s)\<rparr>"
  by (simp add: incrementStats_def Date_now_def)

lemma random_below_eq:
  "random_below w n s =
     (nat \<lfloor>frac (random w (calls s)) * of_nat n\<rfloor>, s\<lparr>calls := Suc (calls s)\<rparr>)"
  by (simp add: random_below_def Math_random_def)

lemma random_below_less: "0 < n \<Longrightarrow> fst (random_below w n s) < n"
proof -
  assume n: "0 < n"
  let ?u = "frac (random w (calls s))"
  have "0 \<le> ?u" "?u < 1" by (simp_all add: frac_lt_1)
  then have "?u * of_nat n < of_nat n" "0 \<le> ?u * of_nat n" using n by simp_all
  then have "\<lfloor>?u * of_nat n\<rfloor> < int n" "0 \<le> \<lfloor>?u * of_nat n\<rfloor>"
    by (simp_all add: floor_less_iff)
  then show ?thesis by (simp add: random_below_eq nat_less_iff)
qed

lemma random_digits_state: "snd (random_digits w n s) = s\<lparr>calls := calls s + n\<rparr>"
  by (induction n arbitrary: s) (simp_all add: random_below_eq split_beta)

lemma draw_bins_state: "snd (draw_bins w n s) = s\<lparr>calls := calls s + 2 * n\<rparr>"
  by (induction n arbitrary: s) (simp_all add: random_below_eq Math_random_def split_beta Let_def)

lemma shuffle_state: "snd (shuffle w i xs s) = s\<lparr>calls := calls s + i\<rparr>"
  by (induction i arbitrary: xs s) (simp_all add: random_below_eq split_beta)

lemma draw_bins_length: "length (fst (draw_bins w n s)) = n"
  by (induction n arbitrary: s) (simp_all add: random_below_eq Math_random_def split_beta Let_def)

lemma generateRandomBins_state:
  "snd (generateRandomBins w c s) = s\<lparr>calls := calls s + 2 * nat c + (nat c - 1)\<rparr>"
proof -
  obtain r s1 where d: "draw_bins w (nat c) s = (r, s1)" by (cases "draw_bins w (nat c) s")
  have "s1 = s\<lparr>calls := calls s + 2 * nat c\<rparr>" "length r = nat c"
    using draw_bins_state[of w "nat c" s] draw_bins_length[of w "nat c" s] d by simp_all
  then show ?thesis using shuffle_state[of w "length r - 1" r s1] d
    by (simp add: generateRandomBins_def)
qed

lemma generateCardData_None:
  "bins_file s = [] \<Longrightarrow> generateCardData w s = (None, s)"
  by (simp add: generateCardData_def loadBins_def)

lemma generateCardData_Some:
  assumes "bins_file s \<noteq> []"
  obtains c k where "generateCardData w s = (Some c, s\<lparr>calls := k\<rparr>)"
proof -
  have "\<exists>c k. generateCardData w s = (Some c, s\<lparr>calls := k\<rparr>)"
    using assms
    by (simp add: generateCardData_def loadBins_def random_below_eq Let_def
          split_beta random_digits_state) blast
  then show thesis using that by blast
qed

section \<open>What each step does to the RunState\<close>

lemmas prim_defs = Date_now_def tell_admin_eq logEvent_eq incrementStats_eq sleep_def
  saveBins_def loadBins_def getUpdates_def sendMessage_def

lemma cmd_stop_arg_eq:
  "parseInt a = Some n \<Longrightarrow>
   cmd_stop w (Some a) s =
     s\<lparr>isRunning := True,
       stopEndTime := Some (clock w (calls s) div 1000 + n),
       runStartTime := Some (clock w (Suc (calls s)) div 1000),
       events_file := events_file s @
         [\<lparr> ev_type = ''timed-stop'',
            timestamp = take 19 (replace_first (CHR ''T'') (CHR '' '')
                          (toISOString w (clock w (calls s + 2)))),
            extra = [(''stop_in_seconds'', Num n)] \<rparr>],
       trace := trace s @ [SendMessage (ADMIN_ID w)
                  (sym_hourglass @ '' Bot will stop automatically in '' @ Number_toString n
                     @ '' seconds.'') None],
       calls := calls s + 4\<rparr>"
  by (simp add: cmd_stop_def prim_defs floor_seconds)

lemma run_state_cmd_start: "run_state (cmd_start w s) = (True, None, Some (clock w (calls s) div 1000), lastSendTime s, interval s)"
  by (simp add: cmd_start_def prim_defs floor_seconds run_state_def)

lemma inv_cmd_start: "RunState_invariant (cmd_start w s)"
  by (simp add: cmd_start_def prim_defs RunState_invariant_def)

lemma inv_cmd_stop: "RunState_invariant s \<Longrightarrow> RunState_invariant (cmd_stop w arg s)"
  by (simp add: cmd_stop_def prim_defs RunState_invariant_def Let_def split: option.splits)

lemma inv_cmd_stime: "RunState_invariant s \<Longrightarrow> RunState_invariant (cmd_stime w arg s)"
  by (simp add: cmd_stime_def prim_defs RunState_invariant_def split: option.splits)

lemma run_state_cmd_time:
  "run_state (cmd_time w arg s) =
     (case arg of None \<Rightarrow> run_state s
      | Some a \<Rightarrow> (case parseInt a of None \<Rightarrow> run_state s
          | Some n \<Rightarrow> (isRunning s, stopEndTime s, runStartTime s, seconds (clock w (calls s)), n)))"
  by (simp add: cmd_time_def prim_defs run_state_def split: option.splits)

lemma run_state_cmd_gen: "run_state (cmd_gen w arg s) = run_state s"
proof -
  have "run_state (snd (generateRandomBins w c s)) = run_state s" for c
    by (simp add: generateRandomBins_state run_state_def)
  then show ?thesis
    by (simp add: cmd_gen_def tell_admin_eq run_state_def split_beta split: option.splits)
qed

lemma run_state_cmd_bin: "run_state (cmd_bin w arg s) = run_state s"
  by (simp add: cmd_bin_def prim_defs run_state_def split_beta Let_def split: option.splits)

lemma run_state_cmd_remove: "run_state (cmd_remove w s) = run_state s"
  by (simp add: cmd_remove_def prim_defs run_state_def Let_def)

lemma run_state_cmd_r: "run_state (cmd_r w arg s) = run_state s"
  by (simp add: cmd_r_def prim_defs run_state_def Let_def split: option.splits)

lemma run_state_cmd_info: "run_state (cmd_info w s) = run_state s"
  by (simp add: cmd_info_def prim_defs run_state_def Let_def)

lemma run_state_cmd_logs: "run_state (cmd_logs w s) = run_state s"
  by (simp add: cmd_logs_def prim_defs run_state_def Let_def)

lemma inv_run_state: "run_state s' = run_state s \<Longrightarrow> RunState_invariant s' = RunState_invariant s"
  by (simp add: run_state_def RunState_invariant_def)

lemma inv_cmd_time: "RunState_invariant (cmd_time w arg s) = RunState_invariant s"
  by (simp add: cmd_time_def prim_defs RunState_invariant_def split: option.splits)

lemma inv_admin_command:
  "RunState_invariant s \<Longrightarrow> RunState_invariant (admin_command w text s)"
  by (simp add: admin_command_def Let_def inv_cmd_start inv_cmd_stop inv_cmd_stime inv_cmd_time
        inv_run_state[OF run_state_cmd_gen] inv_run_state[OF run_state_cmd_bin]
        inv_run_state[OF run_state_cmd_remove] inv_run_state[OF run_state_cmd_r]
        inv_run_state[OF run_state_cmd_info] inv_run_state[OF run_state_cmd_logs]
        split: list.splits)

lemma inv_offset: "RunState_invariant (s\<lparr>offset := v\<rparr>) = RunState_invariant s"
  by (simp add: RunState_invariant_def)

lemma inv_handle_update:
  "RunState_invariant s \<Longrightarrow> RunState_invariant (handle_update w upd s)"
  by (simp add: handle_update_def Let_def inv_admin_command inv_offset split: option.splits)
     (simp add: sendMessage_def RunState_invariant_def)

lemma inv_auto_stop: "RunState_invariant s \<Longrightarrow> RunState_invariant (auto_stop w s)"
  by (simp add: auto_stop_def prim_defs RunState_invariant_def Let_def split: option.splits)

lemma send_card_frame:
  "isRunning (snd (send_card w s)) = isRunning s \<and>
   stopEndTime (snd (send_card w s)) = stopEndTime s \<and>
   runStartTime (snd (send_card w s)) = runStartTime s \<and>
   interval (snd (send_card w s)) = interval s \<and>
   bins_file (snd (send_card w s)) = bins_file s \<and>
   events_file (snd (send_card w s)) = events_file s \<and>
   offset (snd (send_card w s)) = offset s"
proof (cases "bins_file s = []")
  case True
  then show ?thesis
    by (simp add: send_card_def generateCardData_None prim_defs)
next
  case False
  then obtain c k where "generateCardData w s = (Some c, s\<lparr>calls := k\<rparr>)"
    by (rule generateCardData_Some)
  then show ?thesis
    by (simp add: send_card_def getBinDetails_def prim_defs Let_def split_beta)
qed

lemma emit_check_frame:
  "isRunning (snd (emit_check w s)) = isRunning s"
  "stopEndTime (snd (emit_check w s)) = stopEndTime s"
  "runStartTime (snd (emit_check w s)) = runStartTime s"
  "interval (snd (emit_check w s)) = interval s"
  "bins_file (snd (emit_check w s)) = bins_file s"
  "events_file (snd (emit_check w s)) = events_file s"
  "offset (snd (emit_check w s)) = offset s"
  using send_card_frame[of w "s\<lparr>calls := Suc (calls s)\<rparr>"]
  by (simp_all add: emit_check_def Date_now_def Let_def)

lemma inv_emit_check: "RunState_invariant (snd (emit_check w s)) = RunState_invariant s"
  by (simp add: RunState_invariant_def emit_check_frame)

lemma inv_getUpdates: "RunState_invariant (snd (getUpdates w off s)) = RunState_invariant s"
  by (simp add: RunState_invariant_def getUpdates_def)

lemma inv_sleep: "RunState_invariant (sleep ms s) = RunState_invariant s"
  by (simp add: RunState_invariant_def sleep_def)

lemma inv_start:
  "RunState_invariant (initial\<lparr>stats_file := st, events_file := ev, bins_file := bs\<rparr>)"
  by (simp add: RunState_invariant_def initial_def)

lemma reachable_poll_updates:
  assumes "reachable w (\<lambda>upd. True) s"
  shows "reachable w (\<lambda>upd. True) (poll_updates w s)"
proof -
  have fold: "reachable w (\<lambda>upd. True) (foldl (\<lambda>s' upd. handle_update w upd s') s' us)"
    if "reachable w (\<lambda>upd. True) s'" for s' us
    using that by (induction us arbitrary: s') (simp_all add: reachable.handled)
  have "reachable w (\<lambda>upd. True) (snd (getUpdates w (offset s) s))"
    using assms by (rule reachable.polled)
  then show ?thesis
    using fold by (simp add: poll_updates_def split_beta split: option.splits)
qed

lemma reachable_iteration:
  assumes "reachable w (\<lambda>upd. True) s"
  shows "reachable w (\<lambda>upd. True) (iteration w s)"
proof -
  have "reachable w (\<lambda>upd. True) (poll_updates w (auto_stop w s))"
    using assms by (intro reachable_poll_updates reachable.auto)
  then have "reachable w (\<lambda>upd. True) (snd (emit_check w (poll_updates w (auto_stop w s))))"
    by (rule reachable.emitted)
  then show ?thesis
    by (simp add: iteration_def Let_def split_beta reachable.slept)
qed

lemma reachable_run:
  "reachable w (\<lambda>upd. True) ((iteration w ^^ n) initial)"
proof (induction n)
  case 0
  have "reachable w (\<lambda>upd. True) (initial\<lparr>stats_file := [], events_file := [], bins_file := []\<rparr>)"
    by (rule reachable.start)
  then show ?case by (simp add: initial_def)
next
  case (Suc n)
  then show ?case by (simp add: reachable_iteration)
qed

section \<open>The interval\<close>





section \<open>Timed runs and counters\<close>

lemma cmd_stime_times:
  "parseInt a = Some n \<Longrightarrow>
   stopEndTime (cmd_stime w (Some a) s) = Some (clock w (calls s) div 1000 + n) \<and>
   runStartTime (cmd_stime w (Some a) s) = Some (clock w (calls s) div 1000)"
  by (simp add: cmd_stime_def prim_defs floor_seconds)


section \<open>Adding BINs\<close>

lemma add_bins_fresh:
  "\<exists>fresh. add_bins new cur n = (cur @ fresh, n + length fresh) \<and> distinct fresh \<and>
           set fresh = (trim ` set new - {[]}) - set cur"
proof (induction new arbitrary: cur n)
  case Nil
  show ?case by simp
next
  case (Cons b bs)
  show ?case
  proof (cases "trim b \<noteq> [] \<and> trim b \<notin> set cur")
    case True
    from Cons.IH [of "cur @ [trim b]" "n + 1"] obtain fresh where
      f: "add_bins bs (cur @ [trim b]) (n + 1) = ((cur @ [trim b]) @ fresh, n + 1 + length fresh)"
         "distinct fresh" "set fresh = (trim ` set bs - {[]}) - set (cur @ [trim b])"
      by blast
    have "add_bins (b # bs) cur n = (cur @ (trim b # fresh), n + length (trim b # fresh))"
      using True f(1) by simp
    moreover have "distinct (trim b # fresh)" using f(2,3) by simp
    moreover have "set (trim b # fresh) = (trim ` set (b # bs) - {[]}) - set cur"
      using True f(3) by auto
    ultimately show ?thesis by blast
  next
    case False
    from Cons.IH [of cur n] obtain fresh where
      f: "add_bins bs cur n = (cur @ fresh, n + length fresh)"
         "distinct fresh" "set fresh = (trim ` set bs - {[]}) - set cur"
      by blast
    have "add_bins (b # bs) cur n = (cur @ fresh, n + length fresh)"
      using False f(1) by auto
    moreover have "set fresh = (trim ` set (b # bs) - {[]}) - set cur"
      using False f(3) by auto
    ultimately show ?thesis using f(2) by blast
  qed
qed

lemma bin_example_parts:
  "cmdParts ''/bin 400000,400000,510000'' = [''/bin'', ''400000,400000,510000'']"
  "toLowerCase ''/bin'' = ''/bin''"
  "add_bins (split_char (CHR '','') (filter (\<lambda>c. \<not> isWhiteSpace c) ''400000,400000,510000'')) [] 0
     = ([''400000'', ''510000''], 2)"
  "decimal 2 = ''2''"
  by code_simp+

lemma admin_command_bin:
  "cmdParts text = [c, a] \<Longrightarrow> toLowerCase c = ''/bin'' \<Longrightarrow>
   admin_command w text s = cmd_bin w (Some a) s"
  by (simp add: admin_command_def arg_of_def Let_def)

lemma cmd_bin_result:
  assumes "add_bins (split_char (CHR '','') (filter (\<lambda>c. \<not> isWhiteSpace c) a)) (bins_file s) 0
             = (cur, n)"
  shows "bins_file (cmd_bin w (Some a) s) = cur"
    and "trace (cmd_bin w (Some a) s) = trace s @
           [SendMessage (ADMIN_ID w)
              (sym_check @ '' Added '' @ decimal n @ '' new BIN(s). Total in database: ''
                 @ decimal (length cur)) None]"
  using assms by (simp_all add: cmd_bin_def prim_defs Let_def)

section \<open>Splitting the command text\<close>






section \<open>The properties of the specification\<close>










text \<open>
  C4 at a failing input. \<open>/stop 5\<close> reads the clock once for the stop time and once
  more for the start time. With the first reading at 11.999 s and the second at 12.000 s
  the bot is running with \<open>stopEndTime = 16\<close> and \<open>runStartTime = 12\<close>, and 16 is not
  12 + 5.
\<close>

theorem C4_stop_across_second_boundary:
  "clock demo_world 0 = 11999 \<and> clock demo_world 1 = 12000
   \<and> isRunning (admin_command demo_world ''/stop 5'' initial)
   \<and> stopEndTime (admin_command demo_world ''/stop 5'' initial) = Some 16
   \<and> runStartTime (admin_command demo_world ''/stop 5'' initial) = Some 12"
  by code_simp

text \<open>
  C5. The RunState invariant holds in every state that any sequence of commands and
  scheduler steps can reach: whenever \<open>stopEndTime\<close> is set the bot is running, and
  whenever \<open>runStartTime\<close> is set the bot is running.
\<close>

theorem C5_RunState_invariant_reachable:
  "reachable w (\<lambda>upd. True) s \<Longrightarrow> RunState_invariant s"
proof (induction rule: reachable.induct)
  case (start st ev bs)
  show ?case by (rule inv_start)
next
  case (auto s)
  then show ?case by (simp add: inv_auto_stop)
next
  case (polled s)
  then show ?case by (simp add: inv_getUpdates)
next
  case (handled s upd)
  then show ?case by (simp add: inv_handle_update)
next
  case (emitted s)
  then show ?case by (simp add: inv_emit_check)
next
  case (slept s ms)
  then show ?case by (simp add: inv_sleep)
qed

theorem C5_witness:
  "reachable demo_world (\<lambda>upd. True) (handle_update demo_world (text_from 1 ''/stime 5'') initial)
   \<and> stopEndTime (handle_update demo_world (text_from 1 ''/stime 5'') initial) = Some 16
   \<and> runStartTime (handle_update demo_world (text_from 1 ''/stime 5'') initial) = Some 11
   \<and> isRunning (handle_update demo_world (text_from 1 ''/stime 5'') initial)"
proof -
  let ?s = "handle_update demo_world (text_from 1 ''/stime 5'') initial"
  have "reachable demo_world (\<lambda>upd. True)
          (initial\<lparr>stats_file := [], events_file := [], bins_file := []\<rparr>)"
    by (rule reachable.start)
  then have "reachable demo_world (\<lambda>upd. True) initial"
    by (simp add: initial_def)
  then have r: "reachable demo_world (\<lambda>upd. True) ?s"
    by (rule reachable.handled) simp
  have v: "stopEndTime ?s = Some 16" "runStartTime ?s = Some 11"
    by code_simp+
  from C5_RunState_invariant_reachable [OF r] v r show ?thesis
    by (simp add: RunState_invariant_def)
qed



text \<open>
  C7. Whenever the emission check finds a card due while the BIN list is empty, the
  operator is sent the no-BINs notice, the bot pauses for five seconds and goes on to the
  next pass; neither counter is incremented and \<open>lastSendTime\<close> is left as it was.
\<close>

theorem C7_empty_KeyList_emission:
  assumes "due_to_emit w s" and "bins_file s = []"
  shows "emit_check w s =
           (True, s\<lparr>calls := calls s + 2,
                    trace := trace s @ [SendMessage (ADMIN_ID w) no_bins_notice None, Sleep 5000]\<rparr>)
         \<and> stats_file (snd (emit_check w s)) = stats_file s
         \<and> lastSendTime (snd (emit_check w s)) = lastSendTime s"
  using assms
  by (simp add: due_to_emit_def emit_check_def send_card_def generateCardData_None prim_defs)

text \<open>The running bot with its BIN list emptied, at 11.999 s.\<close>

theorem C7_witness:
  "due_to_emit demo_world (demo_running\<lparr>bins_file := []\<rparr>)
   \<and> emit_check demo_world (demo_running\<lparr>bins_file := []\<rparr>) =
       (True, demo_running\<lparr>bins_file := [], calls := 2,
                trace := [SendMessage 1 no_bins_notice None, Sleep 5000]\<rparr>)"
proof -
  have d: "due_to_emit demo_world (demo_running\<lparr>bins_file := []\<rparr>)" by code_simp
  have b: "bins_file (demo_running\<lparr>bins_file := []\<rparr>) = []" by simp
  from C7_empty_KeyList_emission [OF d b] d show ?thesis
    by (simp add: demo_world_def demo_running_def initial_def)
qed

text \<open>
  C8. For every message from a sender other than the operator, the not-authorized reply
  is sent exactly when the text starts with \<open>/\<close> and, in lower case, starts with one of
  the known command names; in every case only the poll offset moves: RunState, BIN list,
  counters and event log are unchanged.
\<close>

theorem C8_non_operator_message:
  assumes "upd_message upd = Some msg" and "from_id msg \<noteq> ADMIN_ID w"
  shows "handle_update w upd s =
           (if startsWith (msg_text msg) ''/'' \<and>
               (\<exists>cmd \<in> set knownCmds. startsWith (toLowerCase (msg_text msg)) cmd)
            then s\<lparr>offset := update_id upd + 1,
                   trace := trace s @ [SendMessage (from_id msg) not_authorized None],
                   calls := Suc (calls s)\<rparr>
            else s\<lparr>offset := update_id upd + 1\<rparr>)
         \<and> run_state (handle_update w upd s) = run_state s
         \<and> bins_file (handle_update w upd s) = bins_file s
         \<and> stats_file (handle_update w upd s) = stats_file s
         \<and> events_file (handle_update w upd s) = events_file s"
  using assms
  by (simp add: handle_update_def Let_def sendMessage_def run_state_def list_ex_iff)

text \<open>Chat 7 is not the operator: \<open>/STOP now\<close> is answered, \<open>/hello\<close> and \<open>stop\<close> are not.\<close>

theorem C8_witness:
  "handle_update demo_world (text_from 7 ''/STOP now'') demo_running =
     demo_running\<lparr>offset := 2, trace := [SendMessage 7 not_authorized None], calls := 1\<rparr>
   \<and> handle_update demo_world (text_from 7 ''/hello'') demo_running = demo_running\<lparr>offset := 2\<rparr>
   \<and> handle_update demo_world (text_from 7 ''stop'') demo_running = demo_running\<lparr>offset := 2\<rparr>"
proof -
  have m: "upd_message (text_from 7 t) = Some \<lparr> from_id = 7, msg_text = t \<rparr>" for t
    by (simp add: text_from_def)
  have a: "from_id \<lparr> from_id = 7, msg_text = t \<rparr> \<noteq> ADMIN_ID demo_world" for t
    by (simp add: demo_world_def)
  have c1: "startsWith ''/STOP now'' ''/'' \<and>
            (\<exists>cmd \<in> set knownCmds. startsWith (toLowerCase ''/STOP now'') cmd)" by code_simp
  have c2: "\<not> (\<exists>cmd \<in> set knownCmds. startsWith (toLowerCase ''/hello'') cmd)" by code_simp
  have c3: "\<not> startsWith ''stop'' ''/''" by code_simp
  show ?thesis
    using C8_non_operator_message [OF m a, of "''/STOP now''" demo_running]
          C8_non_operator_message [OF m a, of "''/hello''" demo_running]
          C8_non_operator_message [OF m a, of "''stop''" demo_running] c1 c2 c3
    by (simp add: text_from_def demo_running_def initial_def)
qed

text \<open>
  C9. For every \<open>/bin\<close> command the tokens that are empty, already in the BIN list or
  repeated within the submitted list are skipped: the new list is the old one followed by
  the net-new tokens, each once; the acknowledgement reports their number and the new
  total. In particular, on an empty BIN list \<open>/bin 400000,400000,510000\<close> yields the list
  \<open>["400000", "510000"]\<close> and the acknowledgement, behind its check mark,
  \<open>Added 2 new BIN(s). Total in database: 2\<close>.
\<close>

theorem C9_bin_adds_net_new:
  "(\<exists>fresh.
      bins_file (cmd_bin w (Some a) s) = bins_file s @ fresh \<and> distinct fresh \<and>
      set fresh = (trim ` set (split_char (CHR '','') (filter (\<lambda>c. \<not> isWhiteSpace c) a)) - {[]})
                    - set (bins_file s) \<and>
      trace (cmd_bin w (Some a) s) = trace s @
        [SendMessage (ADMIN_ID w)
           (sym_check @ '' Added '' @ decimal (length fresh) @ '' new BIN(s). Total in database: ''
              @ decimal (length (bins_file s @ fresh))) None])
   \<and> (bins_file s = [] \<longrightarrow>
        bins_file (admin_command w ''/bin 400000,400000,510000'' s) = [''400000'', ''510000''] \<and>
        trace (admin_command w ''/bin 400000,400000,510000'' s) = trace s @
          [SendMessage (ADMIN_ID w)
             (sym_check @ '' Added 2 new BIN(s). Total in database: 2'') None])"
proof
  let ?new = "split_char (CHR '','') (filter (\<lambda>c. \<not> isWhiteSpace c) a)"
  from add_bins_fresh [of ?new "bins_file s" 0] obtain fresh where
    f: "add_bins ?new (bins_file s) 0 = (bins_file s @ fresh, length fresh)"
       "distinct fresh" "set fresh = (trim ` set ?new - {[]}) - set (bins_file s)"
    by auto
  from cmd_bin_result [OF f(1), of w] f(2,3)
  show "\<exists>fresh.
      bins_file (cmd_bin w (Some a) s) = bins_file s @ fresh \<and> distinct fresh \<and>
      set fresh = (trim ` set ?new - {[]}) - set (bins_file s) \<and>
      trace (cmd_bin w (Some a) s) = trace s @
        [SendMessage (ADMIN_ID w)
           (sym_check @ '' Added '' @ decimal (length fresh) @ '' new BIN(s). Total in database: ''
              @ decimal (length (bins_file s @ fresh))) None]"
    by blast
next
  show "bins_file s = [] \<longrightarrow>
        bins_file (admin_command w ''/bin 400000,400000,510000'' s) = [''400000'', ''510000''] \<and>
        trace (admin_command w ''/bin 400000,400000,510000'' s) = trace s @
          [SendMessage (ADMIN_ID w)
             (sym_check @ '' Added 2 new BIN(s). Total in database: 2'') None]"
  proof
    assume e: "bins_file s = []"
    have a: "add_bins (split_char (CHR '','')
               (filter (\<lambda>c. \<not> isWhiteSpace c) ''400000,400000,510000'')) (bins_file s) 0
             = ([''400000'', ''510000''], 2)"
      unfolding e by (rule bin_example_parts(3))
    have l: "decimal (length [''400000'', ''510000'']) = ''2''"
      by code_simp
    show "bins_file (admin_command w ''/bin 400000,400000,510000'' s) = [''400000'', ''510000''] \<and>
        trace (admin_command w ''/bin 400000,400000,510000'' s) = trace s @
          [SendMessage (ADMIN_ID w)
             (sym_check @ '' Added 2 new BIN(s). Total in database: 2'') None]"
      unfolding admin_command_bin [OF bin_example_parts(1,2)]
        cmd_bin_result(1) [OF a] cmd_bin_result(2) [OF a] l bin_example_parts(4)
      by simp
  qed
qed

text \<open>The scenario on the initial state, whose BIN list is empty.\<close>

theorem C9_witness:
  "bins_file initial = []
   \<and> bins_file (admin_command demo_world ''/bin 400000,400000,510000'' initial) =
       [''400000'', ''510000'']
   \<and> trace (admin_command demo_world ''/bin 400000,400000,510000'' initial) =
       [SendMessage 1 (sym_check @ '' Added 2 new BIN(s). Total in database: 2'') None]"
proof -
  have e: "bins_file initial = []" and t: "trace initial = []"
    and a: "ADMIN_ID demo_world = 1"
    by (simp_all add: initial_def demo_world_def)
  from C9_bin_adds_net_new [of demo_world "''x''" initial, THEN conjunct2, rule_format, OF e]
  show ?thesis
    unfolding t a using e by simp
qed



end
